theory Spec2Isabelle
  imports
    Complex_Main
    "HOL-Library.Char_ord"
    "HOL-Library.List_Lexorder"
    "HOL-Library.Product_Lexorder"
    "HOL-Library.AList"
    "HOL-Library.Sublist"
    "HOL-Library.Multiset"
begin

section \<open>Strings\<close>

text \<open>
  Text values are lists of characters. The order on characters is the order of their codes
  and the order on strings is the lexicographic one, which is what SQLite's default BINARY
  collation computes for \<open>ORDER BY\<close> and \<open>GROUP BY\<close> on a TEXT column.
  Case conversion is modelled on the ASCII letters.
\<close>

definition is_upper :: "char \<Rightarrow> bool" where
  "is_upper c = (CHR ''A'' \<le> c \<and> c \<le> CHR ''Z'')"

definition is_lower :: "char \<Rightarrow> bool" where
  "is_lower c = (CHR ''a'' \<le> c \<and> c \<le> CHR ''z'')"

definition lower_char :: "char \<Rightarrow> char" where
  "lower_char c = (if is_upper c then char_of (of_char c + (32::nat)) else c)"

definition upper_char :: "char \<Rightarrow> char" where
  "upper_char c = (if is_lower c then char_of (of_char c - (32::nat)) else c)"

text \<open>\<^verbatim>\<open>str.lower()\<close>\<close>

definition lower :: "string \<Rightarrow> string" where
  "lower s = map lower_char s"

text \<open>\<^verbatim>\<open>str.capitalize()\<close>: first character upper case, the rest lower case.\<close>

fun capitalize :: "string \<Rightarrow> string" where
  "capitalize [] = []"
| "capitalize (c # cs) = upper_char c # map lower_char cs"

text \<open>\<^verbatim>\<open>str(n)\<close> for an integer: decimal digits, with a sign when negative.\<close>

definition digit_char :: "nat \<Rightarrow> char" where
  "digit_char d = ''0123456789'' ! d"

fun digits :: "nat \<Rightarrow> string" where
  "digits n = (if n < 10 then [digit_char n] else digits (n div 10) @ [digit_char (n mod 10)])"

declare digits.simps [simp del]

definition str_int :: "int \<Rightarrow> string" where
  "str_int i = (if i < 0 then ''-'' @ digits (nat (- i)) else digits (nat i))"

section \<open>Floating-point numbers\<close>

text \<open>
  A Python float and a value of a REAL column are IEEE 754 doubles: a finite number, one
  of the two infinities, or NaN. The two zeros are one value here: SQLite stores
  \<^verbatim>\<open>-0.0\<close> as \<^verbatim>\<open>0.0\<close>, Python takes both as false, and no sum or difference of values
  read from the table is \<^verbatim>\<open>-0.0\<close>.
\<close>

datatype double = Finite real | PInf | NInf | NaN

text \<open>Rounding to the nearest integer, ties to the even one.\<close>

definition round_half_even :: "real \<Rightarrow> int" where
  "round_half_even x =
     (let f = \<lfloor>x\<rfloor>; d = x - of_int f
      in if d < 1 / 2 then f else if 1 / 2 < d then f + 1 else if even f then f else f + 1)"

text \<open>
  The double nearest to a real number (ties to the even significand): 53 significant bits,
  the exponent of the leading bit at least \<open>- 1022\<close> (below that the spacing stays
  \<open>2 ^ - 1074\<close>), and an infinity when the rounded value reaches \<open>2 ^ 1024\<close>.
\<close>

definition round_to_double :: "real \<Rightarrow> double" where
  "round_to_double x =
     (if x = 0 then Finite 0
      else
        let e = max \<lfloor>log 2 \<bar>x\<bar>\<rfloor> (- 1022);
            q = 2 powr of_int (e - 52);
            y = of_int (round_half_even (x / q)) * q
        in if 2 ^ 1024 \<le> \<bar>y\<bar> then (if 0 < x then PInf else NInf) else Finite y)"

text \<open>Addition, negation and subtraction of doubles, and the test \<^verbatim>\<open>fabs(a) > fabs(b)\<close>.\<close>

fun dadd :: "double \<Rightarrow> double \<Rightarrow> double" where
  "dadd (Finite a) (Finite b) = round_to_double (a + b)"
| "dadd (Finite a) PInf = PInf"
| "dadd (Finite a) NInf = NInf"
| "dadd PInf (Finite b) = PInf"
| "dadd PInf PInf = PInf"
| "dadd PInf NInf = NaN"
| "dadd NInf (Finite b) = NInf"
| "dadd NInf PInf = NaN"
| "dadd NInf NInf = NInf"
| "dadd NaN b = NaN"
| "dadd a NaN = NaN"

fun dneg :: "double \<Rightarrow> double" where
  "dneg (Finite a) = Finite (- a)"
| "dneg PInf = NInf"
| "dneg NInf = PInf"
| "dneg NaN = NaN"

definition dsub :: "double \<Rightarrow> double \<Rightarrow> double" where
  "dsub a b = dadd a (dneg b)"

definition fabs_greater :: "double \<Rightarrow> double \<Rightarrow> bool" where
  "fabs_greater a b =
     (case a of
        Finite x \<Rightarrow> (case b of Finite y \<Rightarrow> \<bar>y\<bar> < \<bar>x\<bar> | _ \<Rightarrow> False)
      | NaN \<Rightarrow> False
      | _ \<Rightarrow> (case b of Finite y \<Rightarrow> True | _ \<Rightarrow> False))"

text \<open>
  The format specification \<^verbatim>\<open>:.2f\<close> on a finite number: the value rounded to two
  decimals (ties to even), at least one digit before the point, the sign of the value in
  front. On the other floats it gives \<^verbatim>\<open>inf\<close>, \<^verbatim>\<open>-inf\<close> and \<^verbatim>\<open>nan\<close>.
\<close>

definition fmt2 :: "real \<Rightarrow> string" where
  "fmt2 x =
     (let n = nat (round_half_even (\<bar>x\<bar> * 100))
      in (if x < 0 then ''-'' else '''') @ digits (n div 100) @ ''.'' @
         [digit_char (n mod 100 div 10), digit_char (n mod 10)])"

fun fmt2f :: "double \<Rightarrow> string" where
  "fmt2f (Finite x) = fmt2 x"
| "fmt2f PInf = ''inf''"
| "fmt2f NInf = ''-inf''"
| "fmt2f NaN = ''nan''"

section \<open>The store\<close>

text \<open>
  One row of the table \<^verbatim>\<open>transactions\<close>. The column \<^verbatim>\<open>created_at\<close> is never read
  and is left out. The four TEXT columns hold text (the column affinity converts what is
  bound to them), the REAL column a double (never NaN, which SQLite takes as NULL).
\<close>

record txn =
  tx_id :: int
  description :: string
  amount :: double
  ttype :: string
  category :: string
  date :: string

text \<open>
  The table in rowid order, and the counter kept for \<^verbatim>\<open>AUTOINCREMENT\<close>
  (the largest id ever handed out).
\<close>

record store =
  rows :: "txn list"
  seq :: int

subsection \<open>The SQL operators the queries use\<close>

text \<open>
  The functions \<^verbatim>\<open>LIKE\<close> and \<^verbatim>\<open>substr\<close> read a text up to its first NUL character.
\<close>

definition c_string :: "string \<Rightarrow> string" where
  "c_string s = takeWhile (\<lambda>c. c \<noteq> CHR 0x00) s"

text \<open>
  Matching a pattern: \<^verbatim>\<open>%\<close> in the pattern matches any sequence of characters,
  \<^verbatim>\<open>_\<close> any single character, every other character matches itself up to the case of
  ASCII letters. The first argument is the pattern.
\<close>

fun like_match :: "string \<Rightarrow> string \<Rightarrow> bool" where
  "like_match [] s = (s = [])"
| "like_match (p # ps) [] = (p = CHR ''%'' \<and> like_match ps [])"
| "like_match (p # ps) (c # cs) =
     (if p = CHR ''%'' then like_match ps (c # cs) \<or> like_match (p # ps) cs
      else (p = CHR ''_'' \<or> lower_char p = lower_char c) \<and> like_match ps cs)"

text \<open>\<^verbatim>\<open>X LIKE P\<close> as SQLite evaluates it (the first argument is the pattern \<^verbatim>\<open>P\<close>).\<close>

definition sql_like :: "string \<Rightarrow> string \<Rightarrow> bool" where
  "sql_like p x = like_match (c_string p) (c_string x)"

text \<open>\<^verbatim>\<open>WHERE date LIKE ?\<close> with the parameter \<^verbatim>\<open>f'{month}%'\<close>.\<close>

definition date_like :: "string \<Rightarrow> txn \<Rightarrow> bool" where
  "date_like month r = sql_like (month @ ''%'') (date r)"

text \<open>
  \<^verbatim>\<open>ORDER BY date ASC\<close> and \<^verbatim>\<open>ORDER BY date DESC\<close>. SQL leaves the order of rows with
  equal dates open; the model keeps them in rowid order, as SQLite's sorter does.
\<close>

definition order_by_date :: "bool \<Rightarrow> txn list \<Rightarrow> txn list" where
  "order_by_date desc rs = (if desc then rev (sort_key date (rev rs)) else sort_key date rs)"

text \<open>
  \<^verbatim>\<open>SUM\<close> over the REAL values of a group, in rowid order, as SQLite computes it
  (since version 3.44): the running sum \<^verbatim>\<open>rSum\<close> and the error term \<^verbatim>\<open>rErr\<close> of the
  Kahan-Babuska-Neumaier summation, both started at zero; the result is
  \<^verbatim>\<open>rSum + rErr\<close>, or \<^verbatim>\<open>rSum\<close> alone when the error term is an infinity or NaN. A
  result that is NaN is returned as NULL, which Python reads as \<^verbatim>\<open>None\<close>.
\<close>

definition kbn_step :: "double \<times> double \<Rightarrow> double \<Rightarrow> double \<times> double" where
  "kbn_step acc r =
     (let s = fst acc; t = dadd s r
      in (t, dadd (snd acc)
                (if fabs_greater s r then dadd (dsub s t) r else dadd (dsub r t) s)))"

definition is_overflow :: "double \<Rightarrow> bool" where
  "is_overflow d = (case d of Finite x \<Rightarrow> False | _ \<Rightarrow> True)"

definition sql_sum :: "double list \<Rightarrow> double option" where
  "sql_sum xs =
     (let acc = foldl kbn_step (Finite 0, Finite 0) xs;
          res = (if is_overflow (snd acc) then fst acc else dadd (fst acc) (snd acc))
      in if res = NaN then None else Some res)"

text \<open>
  \<^verbatim>\<open>SELECT key, SUM(amount) ... GROUP BY key\<close>: one row per distinct key, with the sum of
  the amounts of its rows. The groups come out in ascending key order (SQLite sorts on the
  key to form them).
\<close>

definition group_sum :: "(txn \<Rightarrow> 'k::linorder) \<Rightarrow> txn list \<Rightarrow> ('k \<times> double option) list" where
  "group_sum key rs =
     map (\<lambda>k. (k, sql_sum (map amount (filter (\<lambda>r. key r = k) rs)))) (sort (remdups (map key rs)))"

text \<open>
  The sqlite3 module binds a Python integer as a 64-bit signed value and raises
  \<^verbatim>\<open>OverflowError\<close> for one that does not fit.
\<close>

definition sqlite_int_ok :: "int \<Rightarrow> bool" where
  "sqlite_int_ok i = (- (2 ^ 63) \<le> i \<and> i < 2 ^ 63)"

section \<open>Responses\<close>

text \<open>
  Exceptions that no handler catches (the framework answers them with HTTP 500), and the
  three kinds of outcome of a request: the success payload (HTTP 200),
  \<^verbatim>\<open>{'success': False, 'error': msg}\<close> with HTTP 400, or an uncaught exception.
\<close>

datatype pyexc = AttributeError | OverflowError | InterfaceError

datatype 'a response = Ok200 'a | Bad400 string | Unhandled pyexc

section \<open>Listing and deleting\<close>

text \<open>\<^verbatim>\<open>get_transactions\<close>: \<^verbatim>\<open>SELECT * FROM transactions ORDER BY date DESC\<close>.\<close>

definition get_transactions :: "store \<Rightarrow> txn list" where
  "get_transactions s = order_by_date True (rows s)"

text \<open>
  \<^verbatim>\<open>delete_transaction\<close>: the route converter \<^verbatim>\<open><int:id></\<close> hands over a Python
  integer of any size; the statement \<^verbatim>\<open>DELETE FROM transactions WHERE id = ?\<close> removes
  the rows with that id, and the payload is \<^verbatim>\<open>{'success': True}\<close>. Nothing catches the
  exception of the parameter binding.
\<close>

definition delete_transaction :: "store \<Rightarrow> int \<Rightarrow> unit response \<times> store" where
  "delete_transaction s i =
     (if sqlite_int_ok i
      then (Ok200 (), s\<lparr>rows := filter (\<lambda>r. tx_id r \<noteq> i) (rows s)\<rparr>)
      else (Unhandled OverflowError, s))"

section \<open>Inserting\<close>

text \<open>
  The body of a request after \<^verbatim>\<open>request.get_json(force=True, silent=True)\<close>: a JSON
  value, or \<^verbatim>\<open>None\<close> when the body is missing or cannot be parsed. An object is the
  list of its members (a key that occurs twice keeps its last value, as in the Python
  dict). A number with a fraction or an exponent is a float, and so are the literals
  \<^verbatim>\<open>Infinity\<close>, \<^verbatim>\<open>-Infinity\<close> and \<^verbatim>\<open>NaN\<close>, which the parser accepts.
\<close>

datatype json =
    JNull
  | JBool bool
  | JInt int
  | JFloat double
  | JStr string
  | JArr "json list"
  | JObj "(string \<times> json) list"

text \<open>Python's truth value of a parsed JSON value (\<^verbatim>\<open>not x\<close> is its negation).\<close>

fun truthy :: "json \<Rightarrow> bool" where
  "truthy JNull = False"
| "truthy (JBool b) = b"
| "truthy (JInt n) = (n \<noteq> 0)"
| "truthy (JFloat f) = (f \<noteq> Finite 0)"
| "truthy (JStr s) = (s \<noteq> [])"
| "truthy (JArr xs) = (xs \<noteq> [])"
| "truthy (JObj kvs) = (kvs \<noteq> [])"

text \<open>\<^verbatim>\<open>data.get(key)\<close> on a dict: the value, or \<^verbatim>\<open>None\<close> when the key is absent.\<close>

definition py_get :: "(string \<times> json) list \<Rightarrow> string \<Rightarrow> json" where
  "py_get kvs k = (case map_of (rev kvs) k of None \<Rightarrow> JNull | Some v \<Rightarrow> v)"

text \<open>
  \<^verbatim>\<open>float(amount)\<close>. The two exceptions the handler catches are \<^verbatim>\<open>ValueError\<close> and
  \<^verbatim>\<open>TypeError\<close>; an integer is rounded to the nearest double, and one too large for a
  double raises \<^verbatim>\<open>OverflowError\<close>. Parsing a string is Python's own and is a parameter
  (\<open>None\<close> for a string that is not a number; \<^verbatim>\<open>inf\<close> and \<^verbatim>\<open>nan\<close> are numbers
  to it).
\<close>

datatype float_error = ValueError | TypeError | FloatOverflow

fun float_of :: "(string \<Rightarrow> double option) \<Rightarrow> json \<Rightarrow> float_error + double" where
  "float_of float_of_str JNull = Inl TypeError"
| "float_of float_of_str (JBool b) = Inr (Finite (if b then 1 else 0))"
| "float_of float_of_str (JInt n) =
     (case round_to_double (of_int n) of
        Finite y \<Rightarrow> Inr (Finite y)
      | _ \<Rightarrow> Inl FloatOverflow)"
| "float_of float_of_str (JFloat f) = Inr f"
| "float_of float_of_str (JStr s) =
     (case float_of_str s of None \<Rightarrow> Inl ValueError | Some f \<Rightarrow> Inr f)"
| "float_of float_of_str (JArr xs) = Inl TypeError"
| "float_of float_of_str (JObj kvs) = Inl TypeError"

text \<open>
  Binding a Python value to a parameter of a TEXT column: a string is stored as it is, an
  integer (a boolean is one) that fits 64 bits and a float are converted to text by the
  column affinity (the text of a float is SQLite's and is a parameter), NaN and
  \<^verbatim>\<open>None\<close> are bound as NULL, and a list or a dict cannot be bound.
\<close>

fun bind_text :: "(double \<Rightarrow> string) \<Rightarrow> json \<Rightarrow> pyexc + string option" where
  "bind_text text_of_double JNull = Inr None"
| "bind_text text_of_double (JBool b) = Inr (Some (if b then ''1'' else ''0''))"
| "bind_text text_of_double (JInt n) =
     (if sqlite_int_ok n then Inr (Some (str_int n)) else Inl OverflowError)"
| "bind_text text_of_double (JFloat f) =
     (if f = NaN then Inr None else Inr (Some (text_of_double f)))"
| "bind_text text_of_double (JStr s) = Inr (Some s)"
| "bind_text text_of_double (JArr xs) = Inl InterfaceError"
| "bind_text text_of_double (JObj kvs) = Inl InterfaceError"

text \<open>
  The id of \<^verbatim>\<open>INTEGER PRIMARY KEY AUTOINCREMENT\<close>: one more than the largest id ever
  used. (The counter itself stays far below \<open>2 ^ 63\<close>: it grows by one per insert.)
\<close>

definition next_id :: "store \<Rightarrow> int" where
  "next_id s = fold max (map tx_id (rows s)) (seq s) + 1"

definition not_null_failed :: "string \<Rightarrow> string" where
  "not_null_failed col = ''NOT NULL constraint failed: transactions.'' @ col"

datatype sql_error = IntegrityError string | Uncaught pyexc

text \<open>
  The \<^verbatim>\<open>INSERT\<close> statement: the five parameters are bound in order (the first that
  cannot be bound raises; a float always can), then the row is checked against the
  \<^verbatim>\<open>NOT NULL\<close> constraints in column order (a NaN amount is NULL), then stored under a
  fresh id.
\<close>

definition insert_row ::
  "(double \<Rightarrow> string) \<Rightarrow> store \<Rightarrow> json \<Rightarrow> double \<Rightarrow> json \<Rightarrow> json \<Rightarrow> json
     \<Rightarrow> sql_error + int \<times> store" where
  "insert_row text_of_double s d a t c dt =
     (case bind_text text_of_double d of Inl e \<Rightarrow> Inl (Uncaught e) | Inr d' \<Rightarrow>
     (case bind_text text_of_double t of Inl e \<Rightarrow> Inl (Uncaught e) | Inr t' \<Rightarrow>
     (case bind_text text_of_double c of Inl e \<Rightarrow> Inl (Uncaught e) | Inr c' \<Rightarrow>
     (case bind_text text_of_double dt of Inl e \<Rightarrow> Inl (Uncaught e) | Inr dt' \<Rightarrow>
     (case d' of None \<Rightarrow> Inl (IntegrityError (not_null_failed ''description'')) | Some dv \<Rightarrow>
     (if a = NaN then Inl (IntegrityError (not_null_failed ''amount'')) else
     (case t' of None \<Rightarrow> Inl (IntegrityError (not_null_failed ''type'')) | Some tv \<Rightarrow>
     (case c' of None \<Rightarrow> Inl (IntegrityError (not_null_failed ''category'')) | Some cv \<Rightarrow>
     (case dt' of None \<Rightarrow> Inl (IntegrityError (not_null_failed ''date'')) | Some dtv \<Rightarrow>
        Inr (next_id s,
             s\<lparr>rows := rows s @
                   [\<lparr>tx_id = next_id s, description = dv, amount = a, ttype = tv,
                     category = cv, date = dtv\<rparr>],
               seq := next_id s\<rparr>))))))))))"

text \<open>
  \<^verbatim>\<open>add_transaction\<close>. The payload of a success is the new id
  (\<^verbatim>\<open>{'id': transaction_id, 'success': True}\<close>). A body that is true but not a dict
  has no \<^verbatim>\<open>get\<close>. On an integrity error the insert is rolled back; on an uncaught
  exception nothing was committed.
\<close>

definition add_transaction ::
  "(string \<Rightarrow> double option) \<Rightarrow> (double \<Rightarrow> string) \<Rightarrow> store \<Rightarrow> json option
     \<Rightarrow> int response \<times> store" where
  "add_transaction float_of_str text_of_double s body =
     (case body of
        None \<Rightarrow> (Bad400 ''Invalid JSON payload'', s)
      | Some data \<Rightarrow>
          if \<not> truthy data then (Bad400 ''Invalid JSON payload'', s)
          else
            (case data of
               JObj kvs \<Rightarrow>
                 (let p_description = py_get kvs ''description'';
                      p_amount = py_get kvs ''amount'';
                      p_ttype = py_get kvs ''type'';
                      p_category = py_get kvs ''category'';
                      p_date = py_get kvs ''date''
                  in if \<not> truthy p_description \<or> p_amount = JNull \<or> \<not> truthy p_ttype \<or> \<not> truthy p_date
                     then (Bad400 ''Missing required fields'', s)
                     else
                       (case float_of float_of_str p_amount of
                          Inl FloatOverflow \<Rightarrow> (Unhandled OverflowError, s)
                        | Inl _ \<Rightarrow> (Bad400 ''Invalid amount'', s)
                        | Inr a \<Rightarrow>
                            (case insert_row text_of_double s p_description a p_ttype
                                    (if truthy p_category then p_category else JStr '''') p_date of
                               Inr (transaction_id, s') \<Rightarrow> (Ok200 transaction_id, s')
                             | Inl (IntegrityError e) \<Rightarrow> (Bad400 e, s)
                             | Inl (Uncaught e) \<Rightarrow> (Unhandled e, s))))
             | _ \<Rightarrow> (Unhandled AttributeError, s)))"

section \<open>Statistics\<close>

text \<open>
  A Python dict is a list of key-value pairs in insertion order; \<^verbatim>\<open>d[k] = v\<close> is
  \<^const>\<open>AList.update\<close> (the value is replaced in place, or the pair is appended), and
  \<^verbatim>\<open>d.get(k, default)\<close> is \<open>dict_get\<close>.
\<close>

definition dict_get :: "('k \<times> 'v) list \<Rightarrow> 'k \<Rightarrow> 'v \<Rightarrow> 'v" where
  "dict_get d k dflt = (case map_of d k of None \<Rightarrow> dflt | Some v \<Rightarrow> v)"

text \<open>
  A number of the statistics is what the query returned for a sum: a double, or
  \<open>None\<close> for NULL. A value of an entry of \<^verbatim>\<open>monthly\<close> is the month text or such a
  number.
\<close>

datatype field = Text string | Number "double option"

record statistics =
  totals :: "(string \<times> double option) list"
  categories :: "(string \<times> double option) list"
  daily :: "(string \<times> double option) list"
  monthly :: "(string \<times> field) list list"

text \<open>
  The first query and its loop:
  \<^verbatim>\<open>SELECT type, SUM(amount) FROM transactions WHERE date LIKE ? GROUP BY type\<close>,
  then \<^verbatim>\<open>totals[row[0]] = row[1]\<close> on \<^verbatim>\<open>{'income': 0, 'expense': 0}\<close>.
\<close>

definition stat_totals :: "store \<Rightarrow> string \<Rightarrow> (string \<times> double option) list" where
  "stat_totals s month =
     foldl (\<lambda>acc row. AList.update (fst row) (snd row) acc)
       [(''income'', Some (Finite 0)), (''expense'', Some (Finite 0))]
       (group_sum ttype (filter (date_like month) (rows s)))"

text \<open>
  The second and third query: the expenses of the month summed by category (pairs of
  \<^verbatim>\<open>name\<close> and \<^verbatim>\<open>value\<close>), and by date in date order (pairs of \<^verbatim>\<open>date\<close> and
  \<^verbatim>\<open>amount\<close>).
\<close>

definition stat_categories :: "store \<Rightarrow> string \<Rightarrow> (string \<times> double option) list" where
  "stat_categories s month =
     group_sum category (filter (\<lambda>r. ttype r = ''expense'' \<and> date_like month r) (rows s))"

definition stat_daily :: "store \<Rightarrow> string \<Rightarrow> (string \<times> double option) list" where
  "stat_daily s month =
     group_sum date (filter (\<lambda>r. ttype r = ''expense'' \<and> date_like month r) (rows s))"

text \<open>
  The fourth query,
  \<^verbatim>\<open>SELECT substr(date, 1, 7) as month, type, SUM(amount) FROM transactions
  GROUP BY month, type ORDER BY month\<close>, and its loop, which builds the dict
  \<^verbatim>\<open>monthly\<close> from month to entry.
\<close>

definition month_of :: "txn \<Rightarrow> string" where
  "month_of r = take 7 (c_string (date r))"

definition monthly_step ::
  "(string \<times> (string \<times> field) list) list \<Rightarrow> (string \<times> string) \<times> double option
     \<Rightarrow> (string \<times> (string \<times> field) list) list" where
  "monthly_step acc row =
     (let m = fst (fst row); t = snd (fst row);
          acc' = (if m \<notin> fst ` set acc
                      then AList.update m
                             [(''month'', Text m), (''income'', Number (Some (Finite 0))),
                              (''expense'', Number (Some (Finite 0)))]
                             acc
                      else acc)
      in AList.update m (AList.update t (Number (snd row)) (dict_get acc' m [])) acc')"

definition monthly_dict :: "store \<Rightarrow> (string \<times> (string \<times> field) list) list" where
  "monthly_dict s = foldl monthly_step [] (group_sum (\<lambda>r. (month_of r, ttype r)) (rows s))"

definition get_statistics :: "store \<Rightarrow> string \<Rightarrow> statistics" where
  "get_statistics s month =
     \<lparr>totals = stat_totals s month,
      categories = stat_categories s month,
      daily = stat_daily s month,
      monthly = map snd (monthly_dict s)\<rparr>"

section \<open>CSV export\<close>

text \<open>
  \<^verbatim>\<open>csv.writer\<close> with the default dialect: a field is quoted when it holds a comma, a
  double quote, CR or LF (a double quote is doubled), a row of one empty field is written
  as a pair of quotes, fields are joined by commas and the row ends in CR LF.
\<close>

definition csv_special :: "char \<Rightarrow> bool" where
  "csv_special c = (c = CHR '','' \<or> c = CHR 0x22 \<or> c = CHR 0x0D \<or> c = CHR 0x0A)"

definition csv_field :: "string \<Rightarrow> string" where
  "csv_field f =
     (if list_ex csv_special f
      then [CHR 0x22] @ concat (map (\<lambda>c. if c = CHR 0x22 then [c, c] else [c]) f) @ [CHR 0x22]
      else f)"

fun join :: "string \<Rightarrow> string list \<Rightarrow> string" where
  "join sep [] = []"
| "join sep [f] = f"
| "join sep (f # g # fs) = f @ sep @ join sep (g # fs)"

definition crlf :: string where
  "crlf = [CHR 0x0D, CHR 0x0A]"

definition writerow :: "string list \<Rightarrow> string" where
  "writerow fs =
     (if fs = [[]] then [CHR 0x22, CHR 0x22] else join '','' (map csv_field fs)) @ crlf"

text \<open>The query parameters \<^verbatim>\<open>single\<close> and \<^verbatim>\<open>order\<close> (\<open>None\<close>: not given).\<close>

definition single_flag :: "string option \<Rightarrow> bool" where
  "single_flag single =
     (lower (case single of None \<Rightarrow> ''0'' | Some v \<Rightarrow> v) \<in> set [''1'', ''true'', ''yes''])"

definition order_desc :: "string option \<Rightarrow> bool" where
  "order_desc order = (lower (case order of None \<Rightarrow> ''asc'' | Some v \<Rightarrow> v) = ''desc'')"

text \<open>\<^verbatim>\<open>if month:\<close> is true for a parameter that is given and not empty.\<close>

definition month_given :: "string option \<Rightarrow> bool" where
  "month_given month = (case month of None \<Rightarrow> False | Some m \<Rightarrow> m \<noteq> [])"

definition month_rows :: "store \<Rightarrow> string option \<Rightarrow> txn list" where
  "month_rows s month =
     (if month_given month then filter (date_like (the month)) (rows s) else rows s)"

text \<open>The rows of \<^verbatim>\<open>tx_query\<close>.\<close>

definition csv_transactions :: "store \<Rightarrow> string option \<Rightarrow> string option \<Rightarrow> txn list" where
  "csv_transactions s month order = order_by_date (order_desc order) (month_rows s month)"

text \<open>
  \<^verbatim>\<open>row[1] or 0.0\<close>: zero for \<^verbatim>\<open>None\<close> and for a sum that is zero, else the sum.
\<close>

definition or_zero :: "double option \<Rightarrow> double" where
  "or_zero v = (case v of None \<Rightarrow> Finite 0 | Some a \<Rightarrow> if a = Finite 0 then Finite 0 else a)"

text \<open>The dict built from the rows of \<^verbatim>\<open>totals_query\<close>, and the balance.\<close>

definition csv_totals :: "store \<Rightarrow> string option \<Rightarrow> (string \<times> double) list" where
  "csv_totals s month =
     foldl (\<lambda>acc row.
              let t = fst row; a = or_zero (snd row)
              in if t \<in> fst ` set acc then AList.update t a acc
                 else AList.update t a acc)
       [(''income'', Finite 0), (''expense'', Finite 0)]
       (group_sum ttype (month_rows s month))"

definition csv_balance :: "store \<Rightarrow> string option \<Rightarrow> double" where
  "csv_balance s month =
     dsub (dict_get (csv_totals s month) ''income'' (Finite 0))
          (dict_get (csv_totals s month) ''expense'' (Finite 0))"

definition summary_line :: "store \<Rightarrow> string option \<Rightarrow> string" where
  "summary_line s month =
     ''Total Income: '' @ fmt2f (dict_get (csv_totals s month) ''income'' (Finite 0))
     @ '' | Total Expense: '' @ fmt2f (dict_get (csv_totals s month) ''expense'' (Finite 0))
     @ '' | Balance: '' @ fmt2f (csv_balance s month)"

definition single_line :: "txn \<Rightarrow> string" where
  "single_line tx =
     ''ID:'' @ str_int (tx_id tx) @ '' | '' @ description tx @ '' | ''
     @ capitalize (ttype tx) @ '' '' @ fmt2f (amount tx)
     @ '' | Category: '' @ category tx @ '' | Date: '' @ date tx"

definition header :: "string list" where
  "header = [''ID'', ''Description'', ''Amount'', ''Type'', ''Category'', ''Date'',
             ''Total Income'', ''Total Expense'', ''Balance'']"

definition tx_row :: "txn \<Rightarrow> string list" where
  "tx_row tx = [str_int (tx_id tx), description tx, fmt2f (amount tx), ttype tx, category tx,
                date tx, '''', '''', '''']"

text \<open>The rows handed to \<^verbatim>\<open>writer.writerow\<close>, in order.\<close>

definition csv_rows ::
  "store \<Rightarrow> string option \<Rightarrow> string option \<Rightarrow> string option \<Rightarrow> string list list" where
  "csv_rows s month single order =
     (let txs = csv_transactions s month order;
          tot = csv_totals s month;
          balance = csv_balance s month
      in if single_flag single
         then [[''Data''], [summary_line s month], ['''']]
              @ (if txs \<noteq> [] then map (\<lambda>tx. [single_line tx]) txs
                 else [[''No transactions'']])
         else [header,
               ['''', '''', '''', '''', '''', '''',
                fmt2f (dict_get tot ''income'' (Finite 0)),
                fmt2f (dict_get tot ''expense'' (Finite 0)),
                fmt2f balance]]
              @ (if txs \<noteq> [] then map tx_row txs
                 else [['''', ''No transactions'', '''', '''', '''', '''',
                        fmt2f (dict_get tot ''income'' (Finite 0)),
                        fmt2f (dict_get tot ''expense'' (Finite 0)), fmt2f balance]]))"

text \<open>The response: the CSV text and the file name of the attachment.\<close>

record csv_response =
  csv_data :: string
  filename :: string

definition download_csv ::
  "store \<Rightarrow> string option \<Rightarrow> string option \<Rightarrow> string option \<Rightarrow> csv_response" where
  "download_csv s month single order =
     \<lparr>csv_data = concat (map writerow (csv_rows s month single order)),
      filename = (if month_given month then ''transactions_'' @ the month @ ''.csv''
                  else ''transactions_all.csv'')\<rparr>"

section \<open>The conditions the specification names\<close>

text \<open>
  The month-prefix filter of the specification (\<^verbatim>\<open>queryByMonthPrefix\<close>): the rows whose
  date starts with the month string.
\<close>

definition queryByMonthPrefix :: "store \<Rightarrow> string \<Rightarrow> txn list" where
  "queryByMonthPrefix s month = filter (\<lambda>r. prefix month (date r)) (rows s)"

text \<open>
  A character that \<^verbatim>\<open>LIKE\<close> takes literally: neither wildcard, not the NUL character
  and not an ASCII letter. The digits and the dash of a \<^verbatim>\<open>YYYY-MM\<close> month are of this
  kind.
\<close>

definition literal_char :: "char \<Rightarrow> bool" where
  "literal_char c =
     (c \<noteq> CHR ''%'' \<and> c \<noteq> CHR ''_'' \<and> c \<noteq> CHR 0x00 \<and> \<not> is_upper c \<and> \<not> is_lower c)"

text \<open>
  The sum of the amounts of the rows of one type, as the store computes it (\<open>None\<close>
  when it is not a number), and that sum as the export takes it.
\<close>

definition type_sum :: "txn list \<Rightarrow> string \<Rightarrow> double option" where
  "type_sum rs t = sql_sum (map amount (filter (\<lambda>r. ttype r = t) rs))"

definition type_total :: "txn list \<Rightarrow> string \<Rightarrow> double" where
  "type_total rs t = or_zero (type_sum rs t)"

text \<open>
  The condition under which the handler refuses a body for a missing field: a required
  field that is absent, null or (for the three texts) false in Python's sense.
\<close>

definition missing_fields :: "(string \<times> json) list \<Rightarrow> bool" where
  "missing_fields kvs =
     (\<not> truthy (py_get kvs ''description'') \<or> py_get kvs ''amount'' = JNull
      \<or> \<not> truthy (py_get kvs ''type'') \<or> \<not> truthy (py_get kvs ''date''))"

text \<open>
  The entry that the loop of the monthly series creates for a month it has not seen, and
  the value that a dict of entries holds for a month under a key (\<open>None\<close> when the
  month or the key is absent).
\<close>

definition default_entry :: "string \<Rightarrow> (string \<times> field) list" where
  "default_entry m =
     [(''month'', Text m), (''income'', Number (Some (Finite 0))),
      (''expense'', Number (Some (Finite 0)))]"

definition entry_field ::
  "(string \<times> (string \<times> field) list) list \<Rightarrow> string \<Rightarrow> string \<Rightarrow> field option" where
  "entry_field d m k = (case map_of d m of None \<Rightarrow> None | Some e \<Rightarrow> map_of e k)"

subsection \<open>Parsing a CSV document\<close>

text \<open>
  Parsing is that of \<^verbatim>\<open>csv.reader\<close> with the default dialect, reading the lines of the
  document (a line ends after LF, after a CR that no LF follows, and at the end of the
  text). The reader is a state machine over the characters of a line; its state holds the
  field being read and the fields of the record so far.
\<close>

datatype reader_state =
  StartRecord | StartField | InField | InQuotedField | QuoteInQuotedField | EatCRNL

definition is_newline :: "char \<Rightarrow> bool" where
  "is_newline c = (c = CHR 0x0D \<or> c = CHR 0x0A)"

definition start_field :: "string \<Rightarrow> string list \<Rightarrow> char \<Rightarrow> reader_state \<times> string \<times> string list" where
  "start_field f r c =
     (if is_newline c then (EatCRNL, [], r @ [f])
      else if c = CHR 0x22 then (InQuotedField, f, r)
      else if c = CHR '','' then (StartField, [], r @ [f])
      else (InField, f @ [c], r))"

text \<open>
  One character. In the state \<open>EatCRNL\<close> only the LF of a CR LF pair arrives, since the
  line ends with it.
\<close>

fun reader_char ::
  "reader_state \<times> string \<times> string list \<Rightarrow> char \<Rightarrow> reader_state \<times> string \<times> string list" where
  "reader_char (StartRecord, f, r) c =
     (if is_newline c then (EatCRNL, f, r) else start_field f r c)"
| "reader_char (StartField, f, r) c = start_field f r c"
| "reader_char (InField, f, r) c =
     (if is_newline c then (EatCRNL, [], r @ [f])
      else if c = CHR '','' then (StartField, [], r @ [f])
      else (InField, f @ [c], r))"
| "reader_char (InQuotedField, f, r) c =
     (if c = CHR 0x22 then (QuoteInQuotedField, f, r) else (InQuotedField, f @ [c], r))"
| "reader_char (QuoteInQuotedField, f, r) c =
     (if c = CHR 0x22 then (InQuotedField, f @ [c], r)
      else if c = CHR '','' then (StartField, [], r @ [f])
      else if is_newline c then (EatCRNL, [], r @ [f])
      else (InField, f @ [c], r))"
| "reader_char (EatCRNL, f, r) c = (EatCRNL, f, r)"

text \<open>The end of a line.\<close>

fun reader_eol ::
  "reader_state \<times> string \<times> string list \<Rightarrow> reader_state \<times> string \<times> string list" where
  "reader_eol (StartRecord, f, r) = (StartRecord, f, r)"
| "reader_eol (StartField, f, r) = (StartRecord, [], r @ [f])"
| "reader_eol (InField, f, r) = (StartRecord, [], r @ [f])"
| "reader_eol (InQuotedField, f, r) = (InQuotedField, f, r)"
| "reader_eol (QuoteInQuotedField, f, r) = (StartRecord, [], r @ [f])"
| "reader_eol (EatCRNL, f, r) = (StartRecord, f, r)"

text \<open>
  The records of a text: a record is complete when the reader is back in the state
  \<open>StartRecord\<close> at the end of a line; a quoted field that the text leaves open ends
  the last record.
\<close>

definition line_ends :: "char \<Rightarrow> string \<Rightarrow> bool" where
  "line_ends c cs =
     (c = CHR 0x0A \<or> (c = CHR 0x0D \<and> (case cs of [] \<Rightarrow> True | d # ds \<Rightarrow> d \<noteq> CHR 0x0A)) \<or> cs = [])"

fun reader_lines :: "reader_state \<times> string \<times> string list \<Rightarrow> string \<Rightarrow> string list list" where
  "reader_lines st [] = (if fst st = StartRecord then [] else [snd (snd st) @ [fst (snd st)]])"
| "reader_lines st (c # cs) =
     (if line_ends c cs
      then (let st' = reader_eol (reader_char st c)
            in if fst st' = StartRecord
               then snd (snd st') # reader_lines (StartRecord, [], []) cs
               else reader_lines st' cs)
      else reader_lines (reader_char st c) cs)"

definition csv_reader :: "string \<Rightarrow> string list list" where
  "csv_reader text = reader_lines (StartRecord, [], []) text"

section \<open>Example stores and requests\<close>

text \<open>
  The two transactions of the example of the specification: a coffee bought on
  2024-03-05 and a salary received on 2024-03-01.
\<close>

definition coffee :: txn where
  "coffee = \<lparr>tx_id = 1, description = ''Coffee'', amount = Finite (9 / 2), ttype = ''expense'',
             category = ''Food'', date = ''2024-03-05''\<rparr>"

definition salary :: txn where
  "salary = \<lparr>tx_id = 2, description = ''Salary'', amount = Finite 3000, ttype = ''income'',
             category = [], date = ''2024-03-01''\<rparr>"

definition example_store :: store where
  "example_store = \<lparr>rows = [coffee, salary], seq = 2\<rparr>"

definition empty_store :: store where
  "empty_store = \<lparr>rows = [], seq = 0\<rparr>"

text \<open>
  Instances of the two library parameters for the examples: \<^verbatim>\<open>float\<close> on a string of
  decimal digits (any other string is taken as not a number), and the text of a float
  stored in a TEXT column, for a whole number and the infinities.
\<close>

definition is_digit :: "char \<Rightarrow> bool" where
  "is_digit c = (CHR ''0'' \<le> c \<and> c \<le> CHR ''9'')"

definition digits_float_of_str :: "string \<Rightarrow> double option" where
  "digits_float_of_str s =
     (if s \<noteq> [] \<and> list_all is_digit s
      then Some (round_to_double (of_nat (foldl (\<lambda>n c. 10 * n + (of_char c - 48)) 0 s)))
      else None)"

fun whole_text_of_double :: "double \<Rightarrow> string" where
  "whole_text_of_double (Finite r) = str_int \<lfloor>r\<rfloor> @ ''.0''"
| "whole_text_of_double PInf = ''Inf''"
| "whole_text_of_double NInf = ''-Inf''"
| "whole_text_of_double NaN = ''''"

text \<open>A request body without a category.\<close>

definition tea_body :: "(string \<times> json) list" where
  "tea_body =
     [(''description'', JStr ''Tea''), (''amount'', JInt 2), (''type'', JStr ''expense''),
      (''date'', JStr ''2024-03-07'')]"

text \<open>
  Two request bodies whose amounts are the JSON literals \<^verbatim>\<open>Infinity\<close> and
  \<^verbatim>\<open>-Infinity\<close>, and the store after both were posted to an empty table.
\<close>

definition gain_body :: "(string \<times> json) list" where
  "gain_body =
     [(''description'', JStr ''Gain''), (''amount'', JFloat PInf), (''type'', JStr ''income''),
      (''date'', JStr ''2024-03-01'')]"

definition loss_body :: "(string \<times> json) list" where
  "loss_body =
     [(''description'', JStr ''Loss''), (''amount'', JFloat NInf), (''type'', JStr ''income''),
      (''date'', JStr ''2024-03-02'')]"

definition unbounded_store :: store where
  "unbounded_store =
     \<lparr>rows = [\<lparr>tx_id = 1, description = ''Gain'', amount = PInf, ttype = ''income'',
                category = '''', date = ''2024-03-01''\<rparr>,
               \<lparr>tx_id = 2, description = ''Loss'', amount = NInf, ttype = ''income'',
                category = '''', date = ''2024-03-02''\<rparr>],
      seq = 2\<rparr>"

text \<open>
  Request bodies that pass the checks of the handler and raise later: an integer amount
  too large for a double, and a description that is a list.
\<close>

definition huge_amount_body :: "(string \<times> json) list" where
  "huge_amount_body =
     [(''description'', JStr ''Tea''), (''amount'', JInt (2 ^ 1024)), (''type'', JStr ''expense''),
      (''date'', JStr ''2024-03-07'')]"

definition list_description_body :: "(string \<times> json) list" where
  "list_description_body =
     [(''description'', JArr [JStr ''Tea'']), (''amount'', JInt 2), (''type'', JStr ''expense''),
      (''date'', JStr ''2024-03-07'')]"

text \<open>
  Two stores of one transaction that differ in the amount only (an eighth, and fifteen
  128ths), a store whose dates hold a NUL character, and one whose date holds letters.
\<close>

definition eighth_store :: store where
  "eighth_store =
     \<lparr>rows = [\<lparr>tx_id = 1, description = ''Stamp'', amount = Finite (1 / 8), ttype = ''expense'',
                category = ''Post'', date = ''2024-03-05''\<rparr>],
      seq = 1\<rparr>"

definition near_eighth_store :: store where
  "near_eighth_store =
     \<lparr>rows = [\<lparr>tx_id = 1, description = ''Stamp'', amount = Finite (15 / 128), ttype = ''expense'',
                category = ''Post'', date = ''2024-03-05''\<rparr>],
      seq = 1\<rparr>"

definition nul_date_store :: store where
  "nul_date_store =
     \<lparr>rows = [\<lparr>tx_id = 1, description = ''Tea'', amount = Finite 2, ttype = ''expense'',
                category = '''', date = [CHR ''2'', CHR ''0'', CHR ''2'', CHR ''4'', CHR 0x00, CHR ''a'']\<rparr>,
               \<lparr>tx_id = 2, description = ''Bun'', amount = Finite 1, ttype = ''expense'',
                category = '''', date = [CHR ''2'', CHR ''0'', CHR ''2'', CHR ''4'', CHR 0x00, CHR ''b'']\<rparr>],
      seq = 2\<rparr>"

definition quarter_store :: store where
  "quarter_store =
     \<lparr>rows = [\<lparr>tx_id = 1, description = ''Bonus'', amount = Finite 100, ttype = ''income'',
                category = '''', date = ''Q1-2024''\<rparr>],
      seq = 1\<rparr>"

section \<open>Properties\<close>

subsection \<open>Rounding\<close>

lemma round_half_even_of_int [simp]: "round_half_even (of_int n) = n"
  by (simp add: round_half_even_def)

lemma round_to_double_dyadic:
  assumes n: "\<bar>n\<bar> < 2 ^ 53" and k: "k \<le> 1074"
  shows "round_to_double (of_int n / 2 ^ k) = Finite (of_int n / 2 ^ k)"
proof (cases "n = 0")
  case True
  then show ?thesis by (simp add: round_to_double_def)
next
  case False
  define x :: real where "x = of_int n / 2 ^ k"
  have x0: "x \<noteq> 0" using False by (simp add: x_def)
  then have ax: "0 < \<bar>x\<bar>" by simp
  define e0 where "e0 = \<lfloor>log 2 \<bar>x\<bar>\<rfloor>"
  define e where "e = max e0 (- 1022)"
  have lo: "2 powr of_int e0 \<le> \<bar>x\<bar>"
    using floor_log_eq_powr_iff [of "\<bar>x\<bar>" 2 e0] ax by (simp add: e0_def)
  have an: "\<bar>x\<bar> = of_int \<bar>n\<bar> / 2 ^ k"
    by (simp add: x_def abs_divide)
  have nk: "e + int k \<le> 52"
  proof (cases "e0 \<le> - 1022")
    case True
    then show ?thesis using k by (simp add: e_def)
  next
    case False
    then have ee: "e = e0" by (simp add: e_def)
    have "2 powr of_int e0 * 2 ^ k \<le> (of_int \<bar>n\<bar> :: real)"
      using lo by (simp add: an field_simps)
    moreover have "2 powr of_int e0 * 2 ^ k = (2::real) powr of_int (e0 + int k)"
      by (simp add: powr_add powr_realpow)
    ultimately have "(2::real) powr of_int (e0 + int k) \<le> of_int \<bar>n\<bar>" by simp
    also have "\<dots> < 2 ^ 53" using n by (metis of_int_less_numeral_power_cancel_iff)
    also have "\<dots> = (2::real) powr of_int 53" by (simp add: powr_realpow [symmetric])
    finally have "(2::real) powr of_int (e0 + int k) < 2 powr of_int 53" .
    then have "(of_int (e0 + int k) :: real) < of_int 53"
      by (subst (asm) powr_less_cancel_iff) simp_all
    then have "e0 + int k < 53" by (simp only: of_int_less_iff)
    then show ?thesis using ee by simp
  qed
  define j where "j = nat (52 - e - int k)"
  have j: "int j = 52 - e - int k" using nk by (simp add: j_def)
  define q :: real where "q = 2 powr of_int (e - 52)"
  have q0: "0 < q" by (simp add: q_def)
  have "x / q = of_int n * (2 powr of_int (52 - e) / 2 ^ k)"
    by (simp add: x_def q_def powr_minus [symmetric] field_simps powr_diff)
  also have "2 powr of_int (52 - e) / 2 ^ k = (2::real) powr (of_int (52 - e) - of_nat k)"
    by (simp add: powr_diff powr_realpow)
  also have "(of_int (52 - e) - of_nat k :: real) = of_nat j"
    using j by (metis of_int_diff of_int_of_nat_eq)
  also have "(2::real) powr of_nat j = 2 ^ j" by (simp add: powr_realpow)
  finally have xq: "x / q = of_int (n * 2 ^ j)" by simp
  have y: "of_int (round_half_even (x / q)) * q = x"
  proof -
    have "of_int (round_half_even (x / q)) = x / q"
      by (simp only: xq round_half_even_of_int)
    then show ?thesis using q0 by simp
  qed
  have "(of_int \<bar>n\<bar> :: real) / 2 ^ k \<le> of_int \<bar>n\<bar> / 1"
    by (rule divide_left_mono) simp_all
  then have "\<bar>x\<bar> \<le> of_int \<bar>n\<bar>"
    by (simp only: an div_by_1)
  also have "\<dots> < 2 ^ 53" using n by (metis of_int_less_numeral_power_cancel_iff)
  also have "\<dots> \<le> (2::real) ^ 1024" by simp
  finally have b: "\<not> 2 ^ 1024 \<le> \<bar>x\<bar>" by simp
  show ?thesis
    using x0 y b
    unfolding round_to_double_def x_def [symmetric] Let_def e0_def [symmetric]
      e_def [symmetric] q_def [symmetric]
    by simp
qed

lemma round_to_double_int:
  "\<bar>n\<bar> < 2 ^ 53 \<Longrightarrow> round_to_double (of_int n) = Finite (of_int n)"
  using round_to_double_dyadic [of n 0] by simp

lemma round_to_double_values:
  "round_to_double 0 = Finite 0"
  "round_to_double 1 = Finite 1"
  "round_to_double 2 = Finite 2"
  "round_to_double 3 = Finite 3"
  "round_to_double 100 = Finite 100"
  "round_to_double 3000 = Finite 3000"
  "round_to_double (9 / 2) = Finite (9 / 2)"
  "round_to_double (5991 / 2) = Finite (5991 / 2)"
  "round_to_double (1 / 8) = Finite (1 / 8)"
  "round_to_double (15 / 128) = Finite (15 / 128)"
  using round_to_double_int [of 0] round_to_double_int [of 1] round_to_double_int [of 2]
    round_to_double_int [of 3] round_to_double_int [of 100] round_to_double_int [of 3000]
    round_to_double_dyadic [of 9 1] round_to_double_dyadic [of 5991 1]
    round_to_double_dyadic [of 1 3] round_to_double_dyadic [of 15 7]
  by simp_all

lemma round_to_double_overflow: "round_to_double (2 ^ 1024) = PInf"
proof -
  define x :: real where "x = 2 ^ 1024"
  have p: "0 < x" "x \<noteq> 0" "2 ^ 1024 \<le> \<bar>x\<bar>" by (simp_all add: x_def)
  have l: "\<lfloor>log 2 \<bar>x\<bar>\<rfloor> = 1024"
    by (simp add: floor_log_eq_powr_iff x_def)
  have xq: "x / 2 powr of_int (max \<lfloor>log 2 \<bar>x\<bar>\<rfloor> (- 1022) - 52) = of_int (2 ^ 52)"
    unfolding l by (simp add: x_def)
  have y: "of_int (2 ^ 52) * 2 powr of_int (max \<lfloor>log 2 \<bar>x\<bar>\<rfloor> (- 1022) - 52) = x"
    unfolding l by (simp add: x_def)
  have "round_to_double x = PInf"
    unfolding round_to_double_def Let_def xq round_half_even_of_int y
    using p by simp
  then show ?thesis by (simp only: x_def)
qed

subsection \<open>Sums\<close>

lemma dadd_zero_left: "round_to_double x = Finite x \<Longrightarrow> dadd (Finite 0) (Finite x) = Finite x"
  by simp

lemma sql_sum_Nil: "sql_sum [] = Some (Finite 0)"
  by (simp add: sql_sum_def is_overflow_def round_to_double_values)

lemma sql_sum_single:
  "round_to_double x = Finite x \<Longrightarrow> sql_sum [Finite x] = Some (Finite x)"
  by (simp add: sql_sum_def kbn_step_def is_overflow_def fabs_greater_def dsub_def Let_def
      round_to_double_values)

lemma sql_sum_infinities: "sql_sum [PInf, NInf] = None"
  by (simp add: sql_sum_def kbn_step_def is_overflow_def fabs_greater_def dsub_def Let_def)

lemma sql_sum_PInf: "sql_sum [PInf] = Some PInf"
  by (simp add: sql_sum_def kbn_step_def is_overflow_def fabs_greater_def dsub_def Let_def)

lemma or_zero_simps [simp]:
  "or_zero None = Finite 0"
  "or_zero (Some (Finite 0)) = Finite 0"
  "a \<noteq> Finite 0 \<Longrightarrow> or_zero (Some a) = a"
  by (simp_all add: or_zero_def)

lemma or_zero_Some [simp]: "or_zero (Some a) = a"
  by (simp add: or_zero_def)

subsection \<open>Formatting\<close>

lemma digits_small: "n < 10 \<Longrightarrow> digits n = [digit_char n]"
  by (simp add: digits.simps)

lemma digits_step: "10 \<le> n \<Longrightarrow> digits n = digits (n div 10) @ [digit_char (n mod 10)]"
  by (subst digits.simps) simp

lemmas fmt2_eval = fmt2_def round_half_even_def digits_small digits_step digit_char_def Let_def

lemma fmt2_zero: "fmt2 0 = ''0.00''"
  by (simp add: fmt2_def round_half_even_def digits_small digit_char_def)

subsection \<open>Queries\<close>

lemma set_order_by_date [simp]: "set (order_by_date d rs) = set rs"
  by (simp add: order_by_date_def)

lemma like_percent: "like_match ''%'' d"
  by (induction d) simp_all

lemma date_like_empty: "date_like [] r"
  by (simp add: date_like_def sql_like_def c_string_def like_percent)

lemma month_rows_Some: "month_rows s (Some m) = filter (date_like m) (rows s)"
  by (cases "m = []") (simp_all add: month_rows_def month_given_def date_like_empty)

lemma map_of_foldl_update:
  "map_of (foldl (\<lambda>acc row. AList.update (fst row) (g (snd row)) acc) init xs) k
     = (case map_of (rev xs) k of None \<Rightarrow> map_of init k | Some v \<Rightarrow> Some (g v))"
proof (induction xs rule: rev_induct)
  case Nil
  then show ?case by simp
next
  case (snoc x xs)
  then show ?case by (cases x) (simp add: update_conv')
qed

lemma map_of_group_sum:
  "map_of (rev (group_sum key rs)) k
     = (if k \<in> key ` set rs then Some (sql_sum (map amount (filter (\<lambda>r. key r = k) rs)))
        else None)"
proof -
  have d: "distinct (map fst (group_sum key rs))"
    by (simp add: group_sum_def comp_def)
  have "distinct (map fst (rev (group_sum key rs)))"
    using d by (simp add: rev_map [symmetric])
  from map_of_inject_set [OF this d]
  have "map_of (rev (group_sum key rs)) = map_of (group_sum key rs)"
    by simp
  then show ?thesis
    by (simp add: group_sum_def map_of_map_restrict restrict_map_def)
qed

lemma group_sum_Nil: "group_sum key [] = []"
  by (simp add: group_sum_def)

lemma stat_totals_lookup:
  "map_of (stat_totals s month) t =
     (if t \<in> ttype ` set (filter (date_like month) (rows s))
      then Some (type_sum (filter (date_like month) (rows s)) t)
      else if t = ''income'' \<or> t = ''expense'' then Some (Some (Finite 0)) else None)"
  using map_of_foldl_update [of "\<lambda>v. v" "[(''income'', Some (Finite 0)), (''expense'', Some (Finite 0))]"
      "group_sum ttype (filter (date_like month) (rows s))" t]
  by (simp add: stat_totals_def map_of_group_sum type_sum_def)

lemma csv_totals_foldl:
  "csv_totals s month =
     foldl (\<lambda>acc row. AList.update (fst row) (or_zero (snd row)) acc)
       [(''income'', Finite 0), (''expense'', Finite 0)] (group_sum ttype (month_rows s month))"
proof -
  have "(\<lambda>acc row. let t = fst row; a = or_zero (snd row)
              in if t \<in> fst ` set acc then AList.update t a acc else AList.update t a acc)
        = (\<lambda>acc (row :: string \<times> double option). AList.update (fst row) (or_zero (snd row)) acc)"
    by (auto simp: Let_def fun_eq_iff)
  then show ?thesis
    by (simp add: csv_totals_def)
qed

lemma filter_empty_notin: "t \<notin> f ` set rs \<Longrightarrow> filter (\<lambda>r. f r = t) rs = []"
  by (induction rs) auto

lemma csv_totals_get:
  "dict_get (csv_totals s month) t (Finite 0) = type_total (month_rows s month) t"
  by (simp add: csv_totals_foldl dict_get_def map_of_foldl_update map_of_group_sum type_total_def
      type_sum_def filter_empty_notin sql_sum_Nil)

lemma csv_balance_total:
  "csv_balance s month =
     dsub (type_total (month_rows s month) ''income'') (type_total (month_rows s month) ''expense'')"
  by (simp add: csv_balance_def csv_totals_get)

lemma csv_transactions_Nil: "csv_transactions s month order = [] \<longleftrightarrow> month_rows s month = []"
  by (metis csv_transactions_def set_order_by_date set_empty)

lemma type_total_Nil: "type_total [] t = Finite 0"
  by (simp add: type_total_def type_sum_def sql_sum_Nil)

lemma dsub_zero: "dsub (Finite 0) (Finite 0) = Finite 0"
  by (simp add: dsub_def round_to_double_values)

subsection \<open>The single-column layout on an empty result\<close>




subsection \<open>Deleting\<close>

text \<open>
  Claim C8 as stated fails for an id that does not fit 64 bits: binding it raises, and
  the response is not \<^verbatim>\<open>{'success': True}\<close>.
\<close>

theorem delete_transaction_overflow:
  "fst (delete_transaction \<lparr>rows = [], seq = 0\<rparr> (2 ^ 63)) = Unhandled OverflowError"
  by (simp add: delete_transaction_def sqlite_int_ok_def)

text \<open>
  Claim C8, as amended. For every id that SQLite can hold (below \<open>2 ^ 63\<close>), whether or
  not a transaction has it, deleting answers \<^verbatim>\<open>{'success': True}\<close>, the listing
  afterwards has no transaction with that id, and deleting again changes nothing.
\<close>

theorem delete_transaction_idempotent:
  "sqlite_int_ok i \<Longrightarrow>
     fst (delete_transaction s i) = Ok200 () \<and>
     i \<notin> tx_id ` set (get_transactions (snd (delete_transaction s i))) \<and>
     delete_transaction (snd (delete_transaction s i)) i
       = (Ok200 (), snd (delete_transaction s i))"
  by (auto simp: delete_transaction_def get_transactions_def)

theorem delete_transaction_idempotent_witness:
  "sqlite_int_ok 7 \<and>
   fst (delete_transaction \<lparr>rows = [], seq = 3\<rparr> 7) = Ok200 () \<and>
   7 \<notin> tx_id ` set (get_transactions (snd (delete_transaction \<lparr>rows = [], seq = 3\<rparr> 7)))"
proof -
  have h: "sqlite_int_ok 7" by (simp add: sqlite_int_ok_def)
  show ?thesis
    using h delete_transaction_idempotent [OF h, of "\<lparr>rows = [], seq = 3\<rparr>"] by simp
qed

subsection \<open>Inserting\<close>

lemma add_transaction_obj:
  "kvs \<noteq> [] \<Longrightarrow>
   add_transaction F T s (Some (JObj kvs)) =
     (if missing_fields kvs then (Bad400 ''Missing required fields'', s)
      else case float_of F (py_get kvs ''amount'') of
             Inl FloatOverflow \<Rightarrow> (Unhandled OverflowError, s)
           | Inl _ \<Rightarrow> (Bad400 ''Invalid amount'', s)
           | Inr a \<Rightarrow>
               (case insert_row T s (py_get kvs ''description'') a (py_get kvs ''type'')
                       (if truthy (py_get kvs ''category'') then py_get kvs ''category''
                        else JStr '''')
                       (py_get kvs ''date'') of
                  Inr (i, s') \<Rightarrow> (Ok200 i, s')
                | Inl (IntegrityError e) \<Rightarrow> (Bad400 e, s)
                | Inl (Uncaught e) \<Rightarrow> (Unhandled e, s)))"
  by (simp add: add_transaction_def missing_fields_def Let_def)

lemma insert_row_bound:
  "bind_text T d = Inr (Some dv) \<Longrightarrow> bind_text T t = Inr (Some tv) \<Longrightarrow>
   bind_text T c = Inr (Some cv) \<Longrightarrow> bind_text T dt = Inr (Some dtv) \<Longrightarrow> a \<noteq> NaN \<Longrightarrow>
   insert_row T s d a t c dt =
     Inr (next_id s,
          s\<lparr>rows := rows s @ [\<lparr>tx_id = next_id s, description = dv, amount = a, ttype = tv,
                                category = cv, date = dtv\<rparr>],
            seq := next_id s\<rparr>)"
  by (simp add: insert_row_def)

text \<open>
  Claim C9. When the four other fields are valid (description, type and date true and
  bound as text, the amount present and converted to a float that is not NaN) and the
  category is absent, null or any other false value, the insert succeeds and the stored
  category is the empty string. Each of the other four fields is required: a body in which
  one of them is absent or null is refused.
\<close>

theorem category_optional:
  "(truthy (py_get kvs ''description'') \<and> truthy (py_get kvs ''type'')
      \<and> truthy (py_get kvs ''date'') \<and> py_get kvs ''amount'' \<noteq> JNull
      \<and> bind_text T (py_get kvs ''description'') = Inr (Some d)
      \<and> bind_text T (py_get kvs ''type'') = Inr (Some t)
      \<and> bind_text T (py_get kvs ''date'') = Inr (Some dt)
      \<and> float_of F (py_get kvs ''amount'') = Inr a \<and> a \<noteq> NaN
      \<and> \<not> truthy (py_get kvs ''category'')
    \<longrightarrow> add_transaction F T s (Some (JObj kvs)) =
          (Ok200 (next_id s),
           s\<lparr>rows := rows s @ [\<lparr>tx_id = next_id s, description = d, amount = a, ttype = t,
                                 category = '''', date = dt\<rparr>],
             seq := next_id s\<rparr>))
   \<and> (\<forall>k \<in> set [''description'', ''amount'', ''type'', ''date''].
        kvs \<noteq> [] \<and> py_get kvs k = JNull
        \<longrightarrow> add_transaction F T s (Some (JObj kvs)) = (Bad400 ''Missing required fields'', s))"
proof (intro conjI impI ballI)
  assume h: "truthy (py_get kvs ''description'') \<and> truthy (py_get kvs ''type'')
      \<and> truthy (py_get kvs ''date'') \<and> py_get kvs ''amount'' \<noteq> JNull
      \<and> bind_text T (py_get kvs ''description'') = Inr (Some d)
      \<and> bind_text T (py_get kvs ''type'') = Inr (Some t)
      \<and> bind_text T (py_get kvs ''date'') = Inr (Some dt)
      \<and> float_of F (py_get kvs ''amount'') = Inr a \<and> a \<noteq> NaN
      \<and> \<not> truthy (py_get kvs ''category'')"
  then have ne: "kvs \<noteq> []" by (auto simp: py_get_def)
  have nm: "\<not> missing_fields kvs" using h by (simp add: missing_fields_def)
  have c: "bind_text T (JStr '''') = Inr (Some '''')" by simp
  show "add_transaction F T s (Some (JObj kvs)) =
          (Ok200 (next_id s),
           s\<lparr>rows := rows s @ [\<lparr>tx_id = next_id s, description = d, amount = a, ttype = t,
                                 category = '''', date = dt\<rparr>],
             seq := next_id s\<rparr>)"
    using h nm insert_row_bound [of T "py_get kvs ''description''" d "py_get kvs ''type''" t
            "JStr ''''" "''''" "py_get kvs ''date''" dt a s]
    by (simp add: add_transaction_obj [OF ne])
next
  fix k
  assume k: "k \<in> set [''description'', ''amount'', ''type'', ''date'']"
    and h: "kvs \<noteq> [] \<and> py_get kvs k = JNull"
  then have "missing_fields kvs" by (auto simp: missing_fields_def)
  then show "add_transaction F T s (Some (JObj kvs)) = (Bad400 ''Missing required fields'', s)"
    using h by (simp add: add_transaction_obj)
qed

theorem category_optional_witness:
  "add_transaction digits_float_of_str whole_text_of_double example_store (Some (JObj tea_body))
     = (Ok200 (next_id example_store),
        example_store\<lparr>rows := rows example_store @
            [\<lparr>tx_id = next_id example_store, description = ''Tea'', amount = Finite 2,
              ttype = ''expense'', category = '''', date = ''2024-03-07''\<rparr>],
          seq := next_id example_store\<rparr>)
   \<and> next_id example_store = 3
   \<and> add_transaction digits_float_of_str whole_text_of_double example_store
        (Some (JObj [(''category'', JStr ''Food'')]))
     = (Bad400 ''Missing required fields'', example_store)"
proof -
  have h: "truthy (py_get tea_body ''description'') \<and> truthy (py_get tea_body ''type'')
      \<and> truthy (py_get tea_body ''date'') \<and> py_get tea_body ''amount'' \<noteq> JNull
      \<and> bind_text whole_text_of_double (py_get tea_body ''description'') = Inr (Some ''Tea'')
      \<and> bind_text whole_text_of_double (py_get tea_body ''type'') = Inr (Some ''expense'')
      \<and> bind_text whole_text_of_double (py_get tea_body ''date'') = Inr (Some ''2024-03-07'')
      \<and> float_of digits_float_of_str (py_get tea_body ''amount'') = Inr (Finite 2)
      \<and> Finite 2 \<noteq> NaN
      \<and> \<not> truthy (py_get tea_body ''category'')"
    by (simp add: tea_body_def py_get_def round_to_double_values)
  have n: "next_id example_store = 3"
    by (simp add: next_id_def example_store_def coffee_def salary_def)
  have k: "[(''category'', JStr ''Food'')] \<noteq> []
           \<and> py_get [(''category'', JStr ''Food'')] ''description'' = JNull"
    by (simp add: py_get_def)
  show ?thesis
    using n category_optional [THEN conjunct1, rule_format, OF h]
      category_optional [THEN conjunct2, rule_format, of "''description''", OF _ k]
    by simp
qed

text \<open>
  Claim C7 fails on the code: the handler checks the body, the four required fields and
  the amount before it inserts, and yet a request can pass these checks and end in an
  exception that nothing catches, which is neither the answer with HTTP 400 nor a success.
  A body that is a JSON array has no \<^verbatim>\<open>get\<close>; an integer amount too large for a double
  raises \<^verbatim>\<open>OverflowError\<close>, which the conversion guarded by
  \<^verbatim>\<open>except (ValueError, TypeError)\<close> does not catch; a description that is a list cannot be
  bound. In each case the table is left as it was.
\<close>

theorem add_transaction_uncaught:
  "add_transaction digits_float_of_str whole_text_of_double example_store (Some (JArr [JInt 1]))
     = (Unhandled AttributeError, example_store)
   \<and> add_transaction digits_float_of_str whole_text_of_double example_store
        (Some (JObj huge_amount_body))
     = (Unhandled OverflowError, example_store)
   \<and> add_transaction digits_float_of_str whole_text_of_double example_store
        (Some (JObj list_description_body))
     = (Unhandled InterfaceError, example_store)"
proof -
  have "round_to_double (of_int (2 ^ 1024)) = PInf"
    using round_to_double_overflow by simp
  then have h: "float_of digits_float_of_str (JInt (2 ^ 1024)) = Inl FloatOverflow"
    by (simp only: float_of.simps double.case)
  have a: "add_transaction digits_float_of_str whole_text_of_double example_store
        (Some (JObj huge_amount_body)) = (Unhandled OverflowError, example_store)"
    unfolding add_transaction_def huge_amount_body_def
    by (simp add: py_get_def Let_def h del: float_of.simps power_numeral)
  have b: "add_transaction digits_float_of_str whole_text_of_double example_store
        (Some (JObj list_description_body)) = (Unhandled InterfaceError, example_store)"
    by (simp add: add_transaction_def list_description_body_def py_get_def Let_def
        round_to_double_values insert_row_def)
  show ?thesis
    using a b by (simp add: add_transaction_def)
qed

theorem add_transaction_uncaught_witness:
  "fst (add_transaction digits_float_of_str whole_text_of_double example_store
          (Some (JArr [JInt 1]))) = Unhandled AttributeError
   \<and> (\<forall>msg. fst (add_transaction digits_float_of_str whole_text_of_double example_store
                     (Some (JArr [JInt 1]))) \<noteq> Bad400 msg)
   \<and> rows (snd (add_transaction digits_float_of_str whole_text_of_double example_store
                    (Some (JArr [JInt 1])))) = rows example_store"
  using add_transaction_uncaught by simp

subsection \<open>Statistics and export on a sum that is not a number\<close>

text \<open>
  Claim C1 fails on the code. Python's JSON parser accepts the literals \<^verbatim>\<open>Infinity\<close>
  and \<^verbatim>\<open>-Infinity\<close>, and \<^verbatim>\<open>float\<close> accepts them, so two incomes with these amounts
  can be posted. Their sum is not a number, and SQLite returns NULL for it. The export
  guards against that (\<^verbatim>\<open>row[1] or 0.0\<close>) and computes the balance 0.00; the statistics
  store \<^verbatim>\<open>None\<close> under \<^verbatim>\<open>income\<close>, so that no difference of the two totals exists.
\<close>

theorem statistics_null_total:
  "snd (add_transaction digits_float_of_str whole_text_of_double
          (snd (add_transaction digits_float_of_str whole_text_of_double empty_store
                  (Some (JObj gain_body))))
          (Some (JObj loss_body))) = unbounded_store
   \<and> map_of (totals (get_statistics unbounded_store ''2024-03'')) ''income'' = Some None
   \<and> map_of (totals (get_statistics unbounded_store ''2024-03'')) ''expense'' = Some (Some (Finite 0))
   \<and> dict_get (csv_totals unbounded_store (Some ''2024-03'')) ''income'' (Finite 0) = Finite 0
   \<and> csv_balance unbounded_store (Some ''2024-03'') = Finite 0
   \<and> fmt2f (csv_balance unbounded_store (Some ''2024-03'')) = ''0.00''"
proof -
  let ?s1 = "\<lparr>rows = [\<lparr>tx_id = 1, description = ''Gain'', amount = PInf, ttype = ''income'',
                category = '''', date = ''2024-03-01''\<rparr>], seq = 1\<rparr>"
  have a1: "add_transaction digits_float_of_str whole_text_of_double empty_store
              (Some (JObj gain_body)) = (Ok200 1, ?s1)"
    by (simp add: add_transaction_def gain_body_def py_get_def Let_def insert_row_def
        next_id_def empty_store_def)
  have a2: "add_transaction digits_float_of_str whole_text_of_double ?s1
              (Some (JObj loss_body)) = (Ok200 2, unbounded_store)"
    by (simp add: add_transaction_def loss_body_def py_get_def Let_def insert_row_def
        next_id_def unbounded_store_def)
  have f: "filter (date_like ''2024-03'') (rows unbounded_store) = rows unbounded_store"
    by code_simp
  have i: "type_sum (rows unbounded_store) ''income'' = None"
    by (simp add: type_sum_def unbounded_store_def sql_sum_infinities)
  have e: "type_sum (rows unbounded_store) ''expense'' = Some (Finite 0)"
    by (simp add: type_sum_def unbounded_store_def sql_sum_Nil)
  have t: "ttype ` set (rows unbounded_store) = {''income''}"
    by (simp add: unbounded_store_def)
  have s1: "map_of (totals (get_statistics unbounded_store ''2024-03'')) ''income'' = Some None"
    by (simp add: get_statistics_def stat_totals_lookup f i t)
  have s2: "map_of (totals (get_statistics unbounded_store ''2024-03'')) ''expense''
              = Some (Some (Finite 0))"
    by (simp add: get_statistics_def stat_totals_lookup f t)
  have c1: "dict_get (csv_totals unbounded_store (Some ''2024-03'')) ''income'' (Finite 0) = Finite 0"
    by (simp add: csv_totals_get month_rows_Some f type_total_def i)
  have c2: "csv_balance unbounded_store (Some ''2024-03'') = Finite 0"
    by (simp add: csv_balance_total month_rows_Some f type_total_def i e dsub_zero)
  show ?thesis
    using a1 a2 s1 s2 c1 c2 by (simp add: fmt2_zero)
qed

theorem statistics_null_total_witness:
  "map_of (totals (get_statistics unbounded_store ''2024-03'')) ''income'' = Some None
   \<and> fmt2f (csv_balance unbounded_store (Some ''2024-03'')) = ''0.00''"
  using statistics_null_total by blast

subsection \<open>Reading back what the writer wrote\<close>

lemma reader_quoted_char:
  "c \<noteq> CHR 0x22 \<Longrightarrow>
   reader_lines (InQuotedField, f, r) (c # cs) = reader_lines (InQuotedField, f @ [c], r) cs"
  by (cases "line_ends c cs") simp_all

lemma reader_quoted_quote:
  "cs \<noteq> [] \<Longrightarrow>
   reader_lines (InQuotedField, f, r) (CHR 0x22 # cs) = reader_lines (QuoteInQuotedField, f, r) cs"
  by (simp add: line_ends_def)

lemma reader_quote_quote:
  "cs \<noteq> [] \<Longrightarrow>
   reader_lines (QuoteInQuotedField, f, r) (CHR 0x22 # cs)
     = reader_lines (InQuotedField, f @ [CHR 0x22], r) cs"
  by (simp add: line_ends_def)

lemma reader_plain_char:
  "\<not> csv_special c \<Longrightarrow> cs \<noteq> [] \<Longrightarrow>
   reader_lines (InField, f, r) (c # cs) = reader_lines (InField, f @ [c], r) cs"
  by (simp add: line_ends_def csv_special_def is_newline_def)

lemma reader_start_plain:
  "\<not> csv_special c \<Longrightarrow> cs \<noteq> [] \<Longrightarrow>
   reader_lines (StartField, [], r) (c # cs) = reader_lines (InField, [c], r) cs"
  by (simp add: line_ends_def csv_special_def is_newline_def start_field_def)

lemma reader_start_quote:
  "cs \<noteq> [] \<Longrightarrow>
   reader_lines (StartField, [], r) (CHR 0x22 # cs) = reader_lines (InQuotedField, [], r) cs"
  by (simp add: line_ends_def is_newline_def start_field_def)

text \<open>The separators after a field: a comma, and the end of the row.\<close>

lemma reader_comma:
  "rest \<noteq> [] \<Longrightarrow> m \<in> {StartField, InField, QuoteInQuotedField} \<Longrightarrow>
   reader_lines (m, f, r) (CHR '','' # rest) = reader_lines (StartField, [], r @ [f]) rest"
  by (auto simp: line_ends_def is_newline_def start_field_def)

lemma reader_crlf:
  "m \<in> {StartField, InField, QuoteInQuotedField} \<Longrightarrow>
   reader_lines (m, f, r) (crlf @ rest) = (r @ [f]) # reader_lines (StartRecord, [], []) rest"
  by (auto simp: crlf_def line_ends_def is_newline_def start_field_def)

lemma reader_start_record:
  "\<not> is_newline c \<Longrightarrow>
   reader_lines (StartRecord, [], []) (c # cs) = reader_lines (StartField, [], []) (c # cs)"
  by simp

lemma reader_empty_row:
  "reader_lines (StartRecord, [], []) (crlf @ rest) = [] # reader_lines (StartRecord, [], []) rest"
  by (simp add: crlf_def line_ends_def is_newline_def)

declare reader_lines.simps [simp del]

lemma reader_quoted:
  "rest \<noteq> [] \<Longrightarrow>
   reader_lines (InQuotedField, f, r)
     (concat (map (\<lambda>c. if c = CHR 0x22 then [c, c] else [c]) g) @ CHR 0x22 # rest)
   = reader_lines (QuoteInQuotedField, f @ g, r) rest"
proof (induction g arbitrary: f)
  case Nil
  then show ?case by (simp add: reader_quoted_quote)
next
  case (Cons c g)
  show ?case
  proof (cases "c = CHR 0x22")
    case True
    then show ?thesis
      using Cons by (simp add: reader_quoted_quote reader_quote_quote)
  next
    case False
    then show ?thesis
      using Cons by (simp add: reader_quoted_char)
  qed
qed

lemma reader_plain:
  "list_all (\<lambda>c. \<not> csv_special c) u \<Longrightarrow> rest \<noteq> [] \<Longrightarrow>
   reader_lines (InField, f, r) (u @ rest) = reader_lines (InField, f @ u, r) rest"
proof (induction u arbitrary: f)
  case Nil
  then show ?case by simp
next
  case (Cons c u)
  then show ?case by (simp add: reader_plain_char)
qed

lemma reader_field:
  "\<exists>m. m \<in> {StartField, InField, QuoteInQuotedField} \<and>
     (\<forall>rest. rest \<noteq> [] \<longrightarrow>
        reader_lines (StartField, [], r) (csv_field f @ rest) = reader_lines (m, f, r) rest)"
proof (cases "list_ex csv_special f")
  case True
  have "reader_lines (StartField, [], r) (csv_field f @ rest)
          = reader_lines (QuoteInQuotedField, f, r) rest" if "rest \<noteq> []" for rest
  proof -
    have "csv_field f @ rest
            = CHR 0x22 # (concat (map (\<lambda>c. if c = CHR 0x22 then [c, c] else [c]) f)
                @ CHR 0x22 # rest)"
      using True by (simp add: csv_field_def)
    then show ?thesis
      using reader_quoted [OF that, of "[]" r f] by (simp add: reader_start_quote)
  qed
  then show ?thesis by (intro exI [of _ QuoteInQuotedField]) simp
next
  case False
  then have p: "list_all (\<lambda>c. \<not> csv_special c) f"
    by (simp add: list_ex_iff list_all_iff)
  have cf: "csv_field f = f" using False by (simp add: csv_field_def)
  show ?thesis
  proof (cases f)
    case Nil
    then show ?thesis using cf by (intro exI [of _ StartField]) simp
  next
    case (Cons c u)
    have "reader_lines (StartField, [], r) (csv_field f @ rest)
            = reader_lines (InField, f, r) rest" if "rest \<noteq> []" for rest
    proof -
      have "reader_lines (StartField, [], r) (c # (u @ rest))
              = reader_lines (InField, [c], r) (u @ rest)"
        using p Cons that by (intro reader_start_plain) simp_all
      also have "\<dots> = reader_lines (InField, [c] @ u, r) rest"
        using p Cons that by (intro reader_plain) simp_all
      finally show ?thesis using Cons cf by simp
    qed
    then show ?thesis by (intro exI [of _ InField]) simp
  qed
qed

lemma reader_field_comma:
  assumes "rest \<noteq> []"
  shows "reader_lines (StartField, [], r) (csv_field f @ CHR '','' # rest)
           = reader_lines (StartField, [], r @ [f]) rest"
proof -
  obtain m where m: "m \<in> {StartField, InField, QuoteInQuotedField}"
    "\<And>rest. rest \<noteq> [] \<Longrightarrow>
       reader_lines (StartField, [], r) (csv_field f @ rest) = reader_lines (m, f, r) rest"
    using reader_field [of r f] by blast
  have "reader_lines (StartField, [], r) (csv_field f @ CHR '','' # rest)
          = reader_lines (m, f, r) (CHR '','' # rest)"
    by (rule m(2)) simp
  also have "\<dots> = reader_lines (StartField, [], r @ [f]) rest"
    using assms m(1) by (rule reader_comma)
  finally show ?thesis .
qed

lemma reader_field_crlf:
  "reader_lines (StartField, [], r) (csv_field f @ crlf @ rest)
     = (r @ [f]) # reader_lines (StartRecord, [], []) rest"
proof -
  obtain m where m: "m \<in> {StartField, InField, QuoteInQuotedField}"
    "\<And>rest. rest \<noteq> [] \<Longrightarrow>
       reader_lines (StartField, [], r) (csv_field f @ rest) = reader_lines (m, f, r) rest"
    using reader_field [of r f] by blast
  have "reader_lines (StartField, [], r) (csv_field f @ crlf @ rest)
          = reader_lines (m, f, r) (crlf @ rest)"
    by (rule m(2)) (simp add: crlf_def)
  also have "\<dots> = (r @ [f]) # reader_lines (StartRecord, [], []) rest"
    using m(1) by (rule reader_crlf)
  finally show ?thesis .
qed

lemma reader_fields:
  "fs \<noteq> [] \<Longrightarrow>
   reader_lines (StartField, [], r) (join '','' (map csv_field fs) @ crlf @ rest)
     = (r @ fs) # reader_lines (StartRecord, [], []) rest"
proof (induction fs arbitrary: r)
  case Nil
  then show ?case by simp
next
  case (Cons f fs)
  show ?case
  proof (cases fs)
    case Nil
    then show ?thesis by (simp add: reader_field_crlf)
  next
    case (Cons g gs)
    have ne: "join '','' (map csv_field (g # gs)) @ crlf @ rest \<noteq> []"
      by (simp add: crlf_def)
    have "reader_lines (StartField, [], r)
            (join '','' (map csv_field (f # g # gs)) @ crlf @ rest)
          = reader_lines (StartField, [], r @ [f])
            (join '','' (map csv_field (g # gs)) @ crlf @ rest)"
      using reader_field_comma [OF ne, of r f] by simp
    also have "\<dots> = ((r @ [f]) @ g # gs) # reader_lines (StartRecord, [], []) rest"
      using Cons.IH [of "r @ [f]"] Cons by simp
    finally show ?thesis using Cons by simp
  qed
qed

lemma csv_field_hd:
  "f \<noteq> [] \<Longrightarrow> \<not> is_newline (hd (csv_field f @ rest))"
  by (cases f) (auto simp: csv_field_def csv_special_def is_newline_def)

lemma writerow_hd:
  assumes "fs \<noteq> []"
  shows "\<exists>c cs. writerow fs @ rest = c # cs \<and> \<not> is_newline c"
proof (cases "fs = [[]]")
  case True
  then show ?thesis by (simp add: writerow_def is_newline_def)
next
  case False
  obtain f gs where fs: "fs = f # gs" using assms by (cases fs) auto
  show ?thesis
  proof (cases gs)
    case Nil
    then have "f \<noteq> []" using False fs by simp
    then have "csv_field f \<noteq> []" by (auto simp: csv_field_def)
    then obtain c cs where c: "csv_field f = c # cs" by (cases "csv_field f") auto
    have "\<not> is_newline (hd (csv_field f @ crlf @ rest))"
      using \<open>f \<noteq> []\<close> by (rule csv_field_hd)
    then show ?thesis using False fs Nil c by (simp add: writerow_def)
  next
    case (Cons g hs)
    show ?thesis
    proof (cases "f = []")
      case True
      then show ?thesis using False fs Cons
        by (simp add: writerow_def csv_field_def is_newline_def)
    next
      case f: False
      then have "csv_field f \<noteq> []" by (auto simp: csv_field_def)
      then obtain c cs where c: "csv_field f = c # cs" by (cases "csv_field f") auto
      have "\<not> is_newline (hd (csv_field f @ [] ))"
        using f by (rule csv_field_hd)
      then show ?thesis using False fs Cons c by (simp add: writerow_def)
    qed
  qed
qed

lemma reader_writerow:
  "reader_lines (StartRecord, [], []) (writerow fs @ rest)
     = fs # reader_lines (StartRecord, [], []) rest"
proof (cases "fs = []")
  case True
  then show ?thesis
    by (simp add: writerow_def reader_empty_row)
next
  case False
  from writerow_hd [OF False, of rest] obtain c cs where
    c: "writerow fs @ rest = c # cs" "\<not> is_newline c" by blast
  have s: "reader_lines (StartRecord, [], []) (writerow fs @ rest)
            = reader_lines (StartField, [], []) (writerow fs @ rest)"
    unfolding c(1) using c(2) by (rule reader_start_record)
  show ?thesis
  proof (cases "fs = [[]]")
    case True
    have "crlf @ rest \<noteq> []" by (simp add: crlf_def)
    then have "reader_lines (StartField, [], []) (CHR 0x22 # CHR 0x22 # crlf @ rest)
                 = reader_lines (QuoteInQuotedField, [], []) (crlf @ rest)"
      using reader_quoted [of "crlf @ rest" "[]" "[]" "[]"] by (simp add: reader_start_quote)
    then show ?thesis
      using True s by (simp add: writerow_def reader_crlf)
  next
    case f: False
    then show ?thesis
      using s False reader_fields [of fs "[]" rest] by (simp add: writerow_def)
  qed
qed

lemma csv_reader_writer: "csv_reader (concat (map writerow rs)) = rs"
  unfolding csv_reader_def
proof (induction rs)
  case Nil
  then show ?case by (simp add: reader_lines.simps)
next
  case (Cons fs rs)
  then show ?case by (simp add: reader_writerow)
qed

lemma csv_reader_download:
  "csv_reader (csv_data (download_csv s month single order)) = csv_rows s month single order"
  by (simp add: download_csv_def csv_reader_writer)

subsection \<open>The rows of the export\<close>

lemma csv_rows_multi:
  "\<not> single_flag single \<Longrightarrow>
     csv_rows s month single order =
       [''ID'', ''Description'', ''Amount'', ''Type'', ''Category'', ''Date'',
        ''Total Income'', ''Total Expense'', ''Balance'']
       # ['''', '''', '''', '''', '''', '''',
          fmt2f (type_total (month_rows s month) ''income''),
          fmt2f (type_total (month_rows s month) ''expense''),
          fmt2f (dsub (type_total (month_rows s month) ''income'')
                      (type_total (month_rows s month) ''expense''))]
       # (if csv_transactions s month order = []
          then [['''', ''No transactions'', '''', '''', '''', '''',
                 fmt2f (type_total (month_rows s month) ''income''),
                 fmt2f (type_total (month_rows s month) ''expense''),
                 fmt2f (dsub (type_total (month_rows s month) ''income'')
                             (type_total (month_rows s month) ''expense''))]]
          else map (\<lambda>tx. [str_int (tx_id tx), description tx, fmt2f (amount tx), ttype tx,
                           category tx, date tx, '''', '''', ''''])
                 (csv_transactions s month order))"
  by (cases "csv_transactions s month order = []")
     (simp_all add: csv_rows_def csv_totals_get csv_balance_total header_def tx_row_def Let_def)

lemma csv_data_header:
  "\<not> single_flag single \<Longrightarrow>
   prefix (''ID,Description,Amount,Type,Category,Date,Total Income,Total Expense,Balance'' @ crlf)
     (csv_data (download_csv s month single order))"
  by (simp add: download_csv_def csv_rows_def Let_def header_def writerow_def csv_field_def
      csv_special_def)

lemma example_month_rows: "month_rows example_store (Some ''2024-03'') = [coffee, salary]"
  by code_simp

lemma example_totals:
  "type_total [coffee, salary] ''income'' = Finite 3000"
  "type_total [coffee, salary] ''expense'' = Finite (9 / 2)"
  "dsub (Finite 3000) (Finite (9 / 2)) = Finite (5991 / 2)"
  by (simp_all add: type_total_def type_sum_def coffee_def salary_def sql_sum_single
      round_to_double_values dsub_def)

lemma example_formats:
  "fmt2 3000 = ''3000.00''" "fmt2 (9 / 2) = ''4.50''" "fmt2 (5991 / 2) = ''2995.50''"
  by (simp_all add: fmt2_eval)

subsection \<open>The multi-column layout\<close>




end
